theory Spec2Isabelle
  imports Main "HOL-Library.Word"
begin

section \<open>JavaScript strings\<close>

text \<open>
  A JavaScript string is a sequence of UTF-16 code units, and \<^verbatim>\<open>length\<close> counts code
  units.  String literals of the program are ASCII and are embedded with \<open>js\<close>.
\<close>

type_synonym code_unit = "16 word"
type_synonym jsstring = "code_unit list"

definition js :: "string \<Rightarrow> jsstring" where
  "js s = map (\<lambda>c. of_nat (of_char c)) s"

text \<open>
  The characters removed by \<^verbatim>\<open>String.prototype.trim\<close> and matched by the regular
  expression class \<^verbatim>\<open>\s\<close>: ECMAScript's WhiteSpace and LineTerminator.
\<close>

definition isWhiteSpace :: "code_unit \<Rightarrow> bool" where
  "isWhiteSpace c =
     (c = 0x09 \<or> c = 0x0A \<or> c = 0x0B \<or> c = 0x0C \<or> c = 0x0D \<or> c = 0x20 \<or>
      c = 0xA0 \<or> c = 0x1680 \<or> (0x2000 \<le> c \<and> c \<le> 0x200A) \<or> c = 0x2028 \<or>
      c = 0x2029 \<or> c = 0x202F \<or> c = 0x205F \<or> c = 0x3000 \<or> c = 0xFEFF)"

definition trim :: "jsstring \<Rightarrow> jsstring" where
  "trim s = rev (dropWhile isWhiteSpace (rev (dropWhile isWhiteSpace s)))"

definition startsWith :: "jsstring \<Rightarrow> jsstring \<Rightarrow> bool" where
  "startsWith s p = (take (length p) s = p)"

definition endsWith :: "jsstring \<Rightarrow> jsstring \<Rightarrow> bool" where
  "endsWith s p = (length p \<le> length s \<and> drop (length s - length p) s = p)"

text \<open>\<^verbatim>\<open>s.includes(t)\<close>: \<open>t\<close> occurs in \<open>s\<close> as a contiguous substring.\<close>

fun includes_str :: "jsstring \<Rightarrow> jsstring \<Rightarrow> bool" where
  "includes_str [] t = (t = [])"
| "includes_str (c # cs) t = (startsWith (c # cs) t \<or> includes_str cs t)"

text \<open>
  \<^verbatim>\<open>s.split(/\s+/)\<close>: the pieces between the maximal runs of white space.  The first
  argument is the piece being read.  The empty string splits into one empty piece.
\<close>

function split_ws :: "jsstring \<Rightarrow> jsstring \<Rightarrow> jsstring list" where
  "split_ws cur [] = [cur]"
| "split_ws cur (c # cs) =
     (if isWhiteSpace c then cur # split_ws [] (dropWhile isWhiteSpace cs)
      else split_ws (cur @ [c]) cs)"
  by pat_completeness auto
termination
  by (relation "measure (\<lambda>(cur, s). length s)")
     (auto simp: length_dropWhile_le less_Suc_eq_le)

text \<open>
  A template literal renders a count in decimal (array lengths stay far below the
  \<open>10\<^sup>2\<^sup>1\<close> where JavaScript switches to exponent notation).
\<close>

fun numberToString :: "nat \<Rightarrow> jsstring" where
  "numberToString n =
     (if n < 10 then [of_nat (48 + n)]
      else numberToString (n div 10) @ [of_nat (48 + n mod 10)])"

declare numberToString.simps [simp del]

text \<open>Reading a decimal rendering back.\<close>

definition fromDigits :: "jsstring \<Rightarrow> nat" where
  "fromDigits ds = foldl (\<lambda>acc d. 10 * acc + (unat d - 48)) 0 ds"

section \<open>The parsed document\<close>

text \<open>
  cheerio is a library outside the repository.  The analysis reaches the document only
  through the query function \<^verbatim>\<open>$\<close>: a selector gives the list of matched elements in
  document order, an element has its attribute table and its text content (the text of
  all its descendants).  A parsed document is modelled as that query function.
\<close>

record element =
  attribs :: "jsstring \<Rightarrow> jsstring option"
  textContent :: jsstring

type_synonym cheerio = "string \<Rightarrow> element list"

text \<open>\<^verbatim>\<open>.text()\<close> joins the text of every matched element.\<close>

definition sel_text :: "element list \<Rightarrow> jsstring" where
  "sel_text els = concat (map textContent els)"

text \<open>\<^verbatim>\<open>.attr(name)\<close> reads the first matched element; \<open>None\<close> is \<^verbatim>\<open>undefined\<close>.\<close>

definition sel_attr :: "element list \<Rightarrow> jsstring \<Rightarrow> jsstring option" where
  "sel_attr els name = (case els of [] \<Rightarrow> None | el # _ \<Rightarrow> attribs el name)"

text \<open>\<^verbatim>\<open>!v\<close> for a value that is a string or \<^verbatim>\<open>undefined\<close>.\<close>

definition falsy :: "jsstring option \<Rightarrow> bool" where
  "falsy v = (case v of None \<Rightarrow> True | Some s \<Rightarrow> s = [])"

text \<open>\<^verbatim>\<open>v || ''\<close>.\<close>

definition or_empty :: "jsstring option \<Rightarrow> jsstring" where
  "or_empty v = (case v of None \<Rightarrow> [] | Some s \<Rightarrow> s)"

section \<open>analyzeSeo: the values read from the document\<close>

definition title :: "cheerio \<Rightarrow> jsstring" where
  "title doc = trim (sel_text (doc ''title''))"

definition description :: "cheerio \<Rightarrow> jsstring option" where
  \<open>description doc =
     map_option trim (sel_attr (doc ''meta[name="description"]'') (js ''content''))\<close>

definition keywords_meta :: "cheerio \<Rightarrow> jsstring option" where
  \<open>keywords_meta doc =
     map_option trim (sel_attr (doc ''meta[name="keywords"]'') (js ''content''))\<close>

definition robots :: "cheerio \<Rightarrow> jsstring option" where
  \<open>robots doc =
     map_option trim (sel_attr (doc ''meta[name="robots"]'') (js ''content''))\<close>

definition canonical :: "cheerio \<Rightarrow> jsstring option" where
  \<open>canonical doc =
     map_option trim (sel_attr (doc ''link[rel="canonical"]'') (js ''href''))\<close>

definition viewport :: "cheerio \<Rightarrow> jsstring option" where
  \<open>viewport doc =
     map_option trim (sel_attr (doc ''meta[name="viewport"]'') (js ''content''))\<close>

definition charset :: "cheerio \<Rightarrow> jsstring option" where
  "charset doc = map_option trim (sel_attr (doc ''meta[charset]'') (js ''charset''))"

definition ogTags :: "cheerio \<Rightarrow> element list" where
  \<open>ogTags doc = doc ''meta[property^="og:"]''\<close>

definition twitterTags :: "cheerio \<Rightarrow> element list" where
  \<open>twitterTags doc = doc ''meta[name^="twitter:"]''\<close>

definition h1Count :: "cheerio \<Rightarrow> nat" where
  "h1Count doc = length (doc ''h1'')"

definition images :: "cheerio \<Rightarrow> element list" where
  "images doc = doc ''img''"

definition links :: "cheerio \<Rightarrow> element list" where
  "links doc = doc ''a''"

definition paragraphs :: "cheerio \<Rightarrow> element list" where
  "paragraphs doc = doc ''p''"

definition wordCount :: "cheerio \<Rightarrow> nat" where
  "wordCount doc = length (split_ws [] (trim (sel_text (doc ''body''))))"

definition headings :: "cheerio \<Rightarrow> element list" where
  "headings doc = doc ''h1, h2, h3, h4, h5, h6''"

definition lists :: "cheerio \<Rightarrow> element list" where
  "lists doc = doc ''ul, ol''"

definition tables :: "cheerio \<Rightarrow> element list" where
  "tables doc = doc ''table''"

definition iframes :: "cheerio \<Rightarrow> element list" where
  "iframes doc = doc ''iframe''"

definition cssFiles :: "cheerio \<Rightarrow> element list" where
  \<open>cssFiles doc = doc ''link[rel="stylesheet"]''\<close>

definition jsFiles :: "cheerio \<Rightarrow> element list" where
  "jsFiles doc = doc ''script[src]''"

definition inlineStyles :: "cheerio \<Rightarrow> element list" where
  "inlineStyles doc = doc ''[style]''"

definition inlineScripts :: "cheerio \<Rightarrow> element list" where
  "inlineScripts doc = doc ''script:not([src])''"

text \<open>The three callbacks handed to \<^verbatim>\<open>.filter\<close>.\<close>

definition noAlt :: "element \<Rightarrow> bool" where
  "noAlt el = falsy (attribs el (js ''alt''))"

definition isExternal :: "jsstring \<Rightarrow> element \<Rightarrow> bool" where
  "isExternal url el =
     (let href = or_empty (attribs el (js ''href''))
      in startsWith href (js ''http'') \<and> \<not> includes_str href url)"

definition isLargeImage :: "element \<Rightarrow> bool" where
  "isLargeImage el =
     (let src = or_empty (attribs el (js ''src''))
      in endsWith src (js ''.jpg'') \<or> endsWith src (js ''.png'') \<or> endsWith src (js ''.gif''))"

definition imagesWithoutAlt :: "cheerio \<Rightarrow> nat" where
  "imagesWithoutAlt doc = length (filter noAlt (images doc))"

definition externalLinks :: "jsstring \<Rightarrow> cheerio \<Rightarrow> nat" where
  "externalLinks url doc = length (filter (isExternal url) (links doc))"

definition largeImages :: "cheerio \<Rightarrow> element list" where
  "largeImages doc = filter isLargeImage (images doc)"

section \<open>analyzeSeo: the checks\<close>

text \<open>\<^verbatim>\<open>if (b) issues.push(x)\<close>: what one check appends to its issue list.\<close>

definition push_if :: "bool \<Rightarrow> 'a \<Rightarrow> 'a list" where
  "push_if b x = (if b then [x] else [])"

text \<open>The \<^verbatim>\<open>if / else if / else if\<close> chain on the title.\<close>

definition titleIssues :: "jsstring \<Rightarrow> jsstring list" where
  "titleIssues t =
     (if t = [] then [js ''Missing title tag'']
      else if length t < 30 then [js ''Title is too short (should be at least 30 characters)'']
      else if length t > 60 then [js ''Title is too long (should be less than 60 characters)'']
      else [])"

text \<open>The chain on the description, which is \<^verbatim>\<open>undefined\<close> or a string.\<close>

definition descriptionIssues :: "jsstring option \<Rightarrow> jsstring list" where
  "descriptionIssues v =
     (case v of
        None \<Rightarrow> [js ''Missing meta description'']
      | Some d \<Rightarrow>
          if d = [] then [js ''Missing meta description'']
          else if length d < 120
            then [js ''Meta description is too short (should be at least 120 characters)'']
          else if length d > 160
            then [js ''Meta description is too long (should be less than 160 characters)'']
          else [])"

definition metaIssuesOf :: "cheerio \<Rightarrow> jsstring list" where
  "metaIssuesOf doc =
     titleIssues (title doc) @
     descriptionIssues (description doc) @
     push_if (falsy (keywords_meta doc)) (js ''Missing meta keywords'') @
     push_if (falsy (robots doc)) (js ''Missing robots meta tag'') @
     push_if (falsy (canonical doc)) (js ''Missing canonical URL'') @
     push_if (falsy (viewport doc)) (js ''Missing viewport meta tag'') @
     push_if (falsy (charset doc)) (js ''Missing charset meta tag'') @
     push_if (length (ogTags doc) = 0) (js ''Missing Open Graph tags'') @
     push_if (length (twitterTags doc) = 0) (js ''Missing Twitter Card tags'')"

text \<open>
  The content checks, given the two counts that \<^verbatim>\<open>.filter(...).length\<close> produced.
\<close>

definition contentChecks :: "cheerio \<Rightarrow> nat \<Rightarrow> nat \<Rightarrow> jsstring list" where
  "contentChecks doc nWithoutAlt nExternal =
     push_if (h1Count doc = 0) (js ''Missing H1 heading'') @
     push_if (h1Count doc > 1)
       (js ''Multiple H1 headings detected (should have exactly one)'') @
     push_if (nWithoutAlt > 0)
       (numberToString nWithoutAlt @ js '' images missing alt text'') @
     push_if (nExternal = 0)
       (js ''No external links found (consider adding relevant outbound links)'') @
     push_if (wordCount doc < 300)
       (js ''Content length is too short (should be at least 300 words)'') @
     push_if (length (paragraphs doc) < 3)
       (js ''Too few paragraphs (should have at least 3 paragraphs)'') @
     push_if (length (headings doc) < 2)
       (js ''Too few headings (should use proper heading hierarchy)'') @
     push_if (length (lists doc) = 0)
       (js ''No lists found (consider using bullet points or numbered lists)'') @
     push_if (length (tables doc) = 0)
       (js ''No tables found (consider using tables for structured data)'')"

definition contentIssuesOf :: "jsstring \<Rightarrow> cheerio \<Rightarrow> jsstring list" where
  "contentIssuesOf url doc =
     contentChecks doc (imagesWithoutAlt doc) (externalLinks url doc)"

text \<open>The performance checks, given the number of \<^verbatim>\<open>largeImages\<close>.\<close>

definition performanceChecks :: "cheerio \<Rightarrow> nat \<Rightarrow> jsstring list" where
  "performanceChecks doc nLarge =
     push_if (length (cssFiles doc) > 5)
       (js ''High number of CSS files ('' @ numberToString (length (cssFiles doc)) @
        js '' found, recommend combining)'') @
     push_if (length (jsFiles doc) > 10)
       (js ''High number of JavaScript files ('' @ numberToString (length (jsFiles doc)) @
        js '' found, recommend combining)'') @
     push_if (length (inlineStyles doc) > 5)
       (numberToString (length (inlineStyles doc)) @
        js '' inline styles found (recommend using external CSS)'') @
     push_if (length (inlineScripts doc) > 5)
       (numberToString (length (inlineScripts doc)) @
        js '' inline scripts found (recommend using external JS files)'') @
     push_if (nLarge > 10)
       (numberToString nLarge @ js '' large images found (recommend optimizing)'') @
     push_if (length (iframes doc) > 2)
       (numberToString (length (iframes doc)) @
        js '' iframes found (consider reducing for better performance)'')"

definition performanceIssuesOf :: "cheerio \<Rightarrow> jsstring list" where
  "performanceIssuesOf doc = performanceChecks doc (length (largeImages doc))"

section \<open>analyzeSeo: scores and result\<close>

record SeoAnalysisResult =
  metaScore :: int
  metaIssues :: "jsstring list"
  contentScore :: int
  contentIssues :: "jsstring list"
  performanceScore :: int
  performanceIssues :: "jsstring list"

text \<open>
  \<^verbatim>\<open>Math.max(0, 100 - (issues.length * penalty))\<close> for each list, and the object
  returned.
\<close>

definition scoreResult ::
  "jsstring list \<Rightarrow> jsstring list \<Rightarrow> jsstring list \<Rightarrow> SeoAnalysisResult" where
  "scoreResult mIssues cIssues pIssues =
     \<lparr> metaScore = max 0 (100 - int (length mIssues) * 10),
       metaIssues = mIssues,
       contentScore = max 0 (100 - int (length cIssues) * 8),
       contentIssues = cIssues,
       performanceScore = max 0 (100 - int (length pIssues) * 8),
       performanceIssues = pIssues \<rparr>"

text \<open>The body of \<^verbatim>\<open>analyzeSeo\<close> after \<^verbatim>\<open>cheerio.load\<close>.\<close>

definition analyzeDocument :: "jsstring \<Rightarrow> cheerio \<Rightarrow> SeoAnalysisResult" where
  "analyzeDocument url doc =
     scoreResult (metaIssuesOf doc) (contentIssuesOf url doc) (performanceIssuesOf doc)"

text \<open>
  The same body with the three \<^verbatim>\<open>.filter\<close> loops run on fuel: a callback
  invocation on one node costs one unit, and the analysis is abandoned (\<open>None\<close>) when
  the fuel is used up.
\<close>

fun filterFuel :: "('a \<Rightarrow> bool) \<Rightarrow> 'a list \<Rightarrow> nat \<Rightarrow> ('a list \<times> nat) option" where
  "filterFuel P [] fuel = Some ([], fuel)"
| "filterFuel P (x # xs) 0 = None"
| "filterFuel P (x # xs) (Suc fuel) =
     (case filterFuel P xs fuel of
        None \<Rightarrow> None
      | Some (ys, left) \<Rightarrow> Some (if P x then x # ys else ys, left))"

definition analyzeDocumentFuel ::
  "nat \<Rightarrow> jsstring \<Rightarrow> cheerio \<Rightarrow> SeoAnalysisResult option" where
  "analyzeDocumentFuel fuel url doc =
     (case filterFuel noAlt (images doc) fuel of
        None \<Rightarrow> None
      | Some (withoutAlt, fuel1) \<Rightarrow>
     (case filterFuel (isExternal url) (links doc) fuel1 of
        None \<Rightarrow> None
      | Some (external, fuel2) \<Rightarrow>
     (case filterFuel isLargeImage (images doc) fuel2 of
        None \<Rightarrow> None
      | Some (large, fuel3) \<Rightarrow>
          Some (scoreResult (metaIssuesOf doc)
                 (contentChecks doc (length withoutAlt) (length external))
                 (performanceChecks doc (length large))))))"

section \<open>Errors\<close>

text \<open>
  What the program catches: an axios error (with its \<^verbatim>\<open>code\<close>, the status of its
  \<^verbatim>\<open>response\<close> when there is one, and its message) or another \<^verbatim>\<open>Error\<close>.  Every
  value thrown is an \<^verbatim>\<open>Error\<close> object: axios rejects with an \<^verbatim>\<open>AxiosError\<close>,
  \<^verbatim>\<open>encodeURIComponent\<close> throws a \<^verbatim>\<open>URIError\<close>, and the program itself throws
  \<^verbatim>\<open>new Error(...)\<close>.  So a caught error is truthy and \<^verbatim>\<open>instanceof Error\<close>.
\<close>

datatype thrown =
    AxiosError (code: "jsstring option") (status: "nat option") (message: jsstring)
  | Error (message: jsstring)

section \<open>The proxies\<close>

text \<open>
  \<^verbatim>\<open>encodeURIComponent\<close> (ECMAScript): every code unit outside the unreserved set is
  replaced by the percent-escaped UTF-8 octets of its code point; an unpaired surrogate
  throws a URIError.
\<close>

definition uriUnreserved :: "code_unit \<Rightarrow> bool" where
  "uriUnreserved c =
     ((0x41 \<le> c \<and> c \<le> 0x5A) \<or> (0x61 \<le> c \<and> c \<le> 0x7A) \<or> (0x30 \<le> c \<and> c \<le> 0x39) \<or>
      c = 0x2D \<or> c = 0x5F \<or> c = 0x2E \<or> c = 0x21 \<or> c = 0x7E \<or> c = 0x2A \<or>
      c = 0x27 \<or> c = 0x28 \<or> c = 0x29)"

definition hexDigit :: "nat \<Rightarrow> code_unit" where
  "hexDigit n = (if n < 10 then of_nat (48 + n) else of_nat (55 + n))"

definition percentEncode :: "nat \<Rightarrow> jsstring" where
  "percentEncode octet = [0x25, hexDigit (octet div 16), hexDigit (octet mod 16)]"

definition utf8 :: "nat \<Rightarrow> nat list" where
  "utf8 cp =
     (if cp < 0x80 then [cp]
      else if cp < 0x800 then [0xC0 + cp div 64, 0x80 + cp mod 64]
      else if cp < 0x10000
        then [0xE0 + cp div 4096, 0x80 + (cp div 64) mod 64, 0x80 + cp mod 64]
      else [0xF0 + cp div 262144, 0x80 + (cp div 4096) mod 64,
            0x80 + (cp div 64) mod 64, 0x80 + cp mod 64])"

definition escapeCodePoint :: "nat \<Rightarrow> jsstring" where
  "escapeCodePoint cp = concat (map percentEncode (utf8 cp))"

definition URIError :: thrown where
  "URIError = Error (js ''URI malformed'')"

definition isLeadingSurrogate :: "code_unit \<Rightarrow> bool" where
  "isLeadingSurrogate c = (0xD800 \<le> c \<and> c \<le> 0xDBFF)"

definition isTrailingSurrogate :: "code_unit \<Rightarrow> bool" where
  "isTrailingSurrogate c = (0xDC00 \<le> c \<and> c \<le> 0xDFFF)"

fun encodeURIComponent :: "jsstring \<Rightarrow> thrown + jsstring" where
  "encodeURIComponent [] = Inr []"
| "encodeURIComponent (c # cs) =
     (if uriUnreserved c then map_sum id ((#) c) (encodeURIComponent cs)
      else if isTrailingSurrogate c then Inl URIError
      else if isLeadingSurrogate c then
        (case cs of
           [] \<Rightarrow> Inl URIError
         | k # ks \<Rightarrow>
             if isTrailingSurrogate k
             then map_sum id
                    ((@) (escapeCodePoint
                           ((unat c - 0xD800) * 0x400 + (unat k - 0xDC00) + 0x10000)))
                    (encodeURIComponent ks)
             else Inl URIError)
      else map_sum id ((@) (escapeCodePoint (unat c))) (encodeURIComponent cs))"

text \<open>The static list of proxy URL templates.\<close>

definition PROXY_SERVICES :: "(jsstring \<Rightarrow> thrown + jsstring) list" where
  "PROXY_SERVICES =
     [\<lambda>url. map_sum id ((@) (js ''https://api.allorigins.win/raw?url=''))
               (encodeURIComponent url),
      \<lambda>url. map_sum id ((@) (js ''https://corsproxy.io/?'')) (encodeURIComponent url),
      \<lambda>url. map_sum id ((@) (js ''https://api.codetabs.com/v1/proxy?quest=''))
               (encodeURIComponent url)]"

section \<open>fetchWithFallback\<close>

text \<open>
  The network is outside the program.  \<^verbatim>\<open>axios.get\<close> is a parameter: in a state of
  the world \<open>'w\<close> a request for a URL either throws or answers with \<^verbatim>\<open>response.data\<close>,
  and leaves a new state of the world.  The body is a string, falsy when empty.  The
  model records the URLs requested, in order.
\<close>

type_synonym 'w axios = "'w \<Rightarrow> jsstring \<Rightarrow> (thrown + jsstring) \<times> 'w"

text \<open>\<^verbatim>\<open>throw lastError || new Error('All proxy services failed')\<close>.\<close>

definition thrownAtEnd :: "thrown option \<Rightarrow> thrown" where
  "thrownAtEnd lastError =
     (case lastError of Some e \<Rightarrow> e | None \<Rightarrow> Error (js ''All proxy services failed''))"

text \<open>
  The \<^verbatim>\<open>for ... of\<close> loop over the remaining proxies, with \<^verbatim>\<open>lastError\<close>, the world
  and the requests made so far.  Building the proxy URL is inside the \<^verbatim>\<open>try\<close>.
\<close>

fun fetchLoop ::
  "'w axios \<Rightarrow> jsstring \<Rightarrow> (jsstring \<Rightarrow> thrown + jsstring) list \<Rightarrow> thrown option \<Rightarrow> 'w \<Rightarrow>
   jsstring list \<Rightarrow> (thrown + jsstring) \<times> 'w \<times> jsstring list" where
  "fetchLoop get url [] lastError w requests = (Inl (thrownAtEnd lastError), w, requests)"
| "fetchLoop get url (proxyService # rest) lastError w requests =
     (case proxyService url of
        Inl e \<Rightarrow> fetchLoop get url rest (Some e) w requests
      | Inr proxyUrl \<Rightarrow>
          (case get w proxyUrl of
             (Inl e, w') \<Rightarrow> fetchLoop get url rest (Some e) w' (requests @ [proxyUrl])
           | (Inr body, w') \<Rightarrow>
               if body \<noteq> [] then (Inr body, w', requests @ [proxyUrl])
               else fetchLoop get url rest lastError w' (requests @ [proxyUrl])))"

definition fetchWithFallback ::
  "'w axios \<Rightarrow> 'w \<Rightarrow> jsstring \<Rightarrow> (thrown + jsstring) \<times> 'w \<times> jsstring list" where
  "fetchWithFallback get w url = fetchLoop get url PROXY_SERVICES None w []"

section \<open>analyzeSeo\<close>

text \<open>The \<^verbatim>\<open>catch\<close> block of \<^verbatim>\<open>analyzeSeo\<close>: the error thrown in place of the one caught.\<close>

definition rethrow :: "thrown \<Rightarrow> thrown" where
  "rethrow err =
     (case err of
        AxiosError c st msg \<Rightarrow>
          if c = Some (js ''ECONNABORTED'')
          then Error (js ''Request timed out. Please try again or check if the website is accessible.'')
          else if st = Some 404
          then Error (js ''Website not found. Please check if the URL is correct.'')
          else if st = Some 403
          then Error (js ''Access denied. The website might be blocking automated requests.'')
          else Error (js ''Unable to analyze website: '' @ msg)
      | Error msg \<Rightarrow>
          Error (js ''Failed to analyze website. Please check your internet connection and try again.''))"

text \<open>
  \<^verbatim>\<open>cheerio.load\<close> is a parameter too; it is called inside the \<^verbatim>\<open>try\<close>, so a parser
  that throws lands in the same \<^verbatim>\<open>catch\<close>.
\<close>

definition analyzeSeo ::
  "'w axios \<Rightarrow> (jsstring \<Rightarrow> thrown + cheerio) \<Rightarrow> 'w \<Rightarrow> jsstring \<Rightarrow>
   (thrown + SeoAnalysisResult) \<times> 'w \<times> jsstring list" where
  "analyzeSeo get load w url =
     (case fetchWithFallback get w url of
        (Inl e, w', requests) \<Rightarrow> (Inl (rethrow e), w', requests)
      | (Inr html, w', requests) \<Rightarrow>
          (case load html of
             Inl e \<Rightarrow> (Inl (rethrow e), w', requests)
           | Inr doc \<Rightarrow> (Inr (analyzeDocument url doc), w', requests)))"

section \<open>The component: handleAnalysis\<close>

text \<open>The four \<^verbatim>\<open>useState\<close> cells of \<^verbatim>\<open>SeoAnalyzer\<close>.\<close>

record component_state =
  url_st :: jsstring
  results_st :: "SeoAnalysisResult option"
  loading_st :: bool
  error_st :: jsstring

text \<open>
  \<^verbatim>\<open>handleAnalysis\<close>: the state after the handler has run, the world, and the requests
  made.  What \<^verbatim>\<open>analyzeSeo\<close> throws is an \<^verbatim>\<open>Error\<close>, so the \<^verbatim>\<open>catch\<close> stores its
  message; \<^verbatim>\<open>finally\<close> clears the loading flag on both paths.
\<close>

definition handleAnalysis ::
  "'w axios \<Rightarrow> (jsstring \<Rightarrow> thrown + cheerio) \<Rightarrow> 'w \<Rightarrow> component_state \<Rightarrow>
   component_state \<times> 'w \<times> jsstring list" where
  "handleAnalysis get load w s =
     (if \<not> startsWith (url_st s) (js ''http://'') \<and> \<not> startsWith (url_st s) (js ''https://'')
      then (s\<lparr>error_st := js ''Please enter a valid URL starting with http:// or https://''\<rparr>,
            w, [])
      else
        (let s1 = s\<lparr>loading_st := True, error_st := [], results_st := None\<rparr>
         in case analyzeSeo get load w (url_st s) of
              (Inr analysisResults, w', requests) \<Rightarrow>
                (s1\<lparr>results_st := Some analysisResults, loading_st := False\<rparr>, w', requests)
            | (Inl err, w', requests) \<Rightarrow>
                (s1\<lparr>error_st := message err, loading_st := False\<rparr>, w', requests)))"

section \<open>Vocabulary of the statements\<close>

text \<open>
  An iteration of the loop succeeds when nothing is thrown in its \<^verbatim>\<open>try\<close> block and
  \<^verbatim>\<open>response.data\<close> is truthy.
\<close>

definition succeeded :: "thrown + jsstring \<Rightarrow> bool" where
  "succeeded r = (case r of Inl e \<Rightarrow> False | Inr body \<Rightarrow> body \<noteq> [])"

text \<open>
  What each proxy in turn would give from the state \<open>w\<close> on: the error thrown in its
  \<^verbatim>\<open>try\<close> block, or the body of the response.
\<close>

fun attempts ::
  "'w axios \<Rightarrow> jsstring \<Rightarrow> (jsstring \<Rightarrow> thrown + jsstring) list \<Rightarrow> 'w \<Rightarrow>
   (thrown + jsstring) list" where
  "attempts get url [] w = []"
| "attempts get url (proxyService # rest) w =
     (case proxyService url of
        Inl e \<Rightarrow> Inl e # attempts get url rest w
      | Inr proxyUrl \<Rightarrow>
          (case get w proxyUrl of (r, w') \<Rightarrow> r # attempts get url rest w'))"

text \<open>The errors among the outcomes, in order.\<close>

fun caught :: "(thrown + jsstring) list \<Rightarrow> thrown list" where
  "caught [] = []"
| "caught (Inl e # rs) = e # caught rs"
| "caught (Inr body # rs) = caught rs"

text \<open>The URLs that the given proxies build for \<open>url\<close>, in order.\<close>

fun proxyUrls :: "jsstring \<Rightarrow> (jsstring \<Rightarrow> thrown + jsstring) list \<Rightarrow> jsstring list" where
  "proxyUrls url [] = []"
| "proxyUrls url (proxyService # rest) =
     (case proxyService url of
        Inl e \<Rightarrow> proxyUrls url rest
      | Inr proxyUrl \<Rightarrow> proxyUrl # proxyUrls url rest)"

text \<open>Successive calls of \<^verbatim>\<open>fetchWithFallback\<close>: each URL with the requests made for it.\<close>

fun successiveCalls ::
  "'w axios \<Rightarrow> 'w \<Rightarrow> jsstring list \<Rightarrow> (jsstring \<times> jsstring list) list" where
  "successiveCalls get w [] = []"
| "successiveCalls get w (url # urls) =
     (case fetchWithFallback get w url of
        (r, w', requests) \<Rightarrow> (url, requests) # successiveCalls get w' urls)"

text \<open>The state of the world in which each of these calls starts.\<close>

fun statesBefore :: "'w axios \<Rightarrow> 'w \<Rightarrow> jsstring list \<Rightarrow> 'w list" where
  "statesBefore get w [] = []"
| "statesBefore get w (url # urls) =
     (case fetchWithFallback get w url of
        (r, w', requests) \<Rightarrow> w # statesBefore get w' urls)"

section \<open>Example inputs\<close>

definition example_url :: jsstring where
  "example_url = js ''https://example.com''"

definition example_page :: jsstring where
  "example_page = js ''<html><head></head><body></body></html>''"

text \<open>
  The document of \<open>example_page\<close>: of the selectors the analysis uses only \<^verbatim>\<open>body\<close>
  matches an element, and its text is empty.
\<close>

definition example_doc :: cheerio where
  "example_doc sel =
     (if sel = ''body'' then [\<lparr> attribs = (\<lambda>name. None), textContent = [] \<rparr>] else [])"

text \<open>A parser for the examples: it answers with the example document.\<close>

definition example_load :: "jsstring \<Rightarrow> thrown + cheerio" where
  "example_load html = Inr example_doc"

text \<open>Four networks whose state counts the requests made.\<close>

definition net_ok :: "nat axios" where
  "net_ok n u = (Inr example_page, Suc n)"

definition net_down :: "nat axios" where
  "net_down n u = (Inl (AxiosError (Some (js ''ERR_NETWORK'')) None (js ''Network Error'')), Suc n)"

definition net_empty :: "nat axios" where
  "net_empty n u = (Inr [], Suc n)"

text \<open>The first proxy times out, the second answers with an empty body, the third works.\<close>

definition net_flaky :: "nat axios" where
  "net_flaky n u =
     (if startsWith u (js ''https://api.allorigins.win/'')
      then Inl (AxiosError (Some (js ''ECONNABORTED'')) None (js ''timeout of 15000ms exceeded''))
      else if startsWith u (js ''https://corsproxy.io/'') then Inr []
      else Inr example_page,
      Suc n)"

text \<open>
  The example document with a title of five characters, and with one link to
  \<^verbatim>\<open>http://example.org/page\<close>.
\<close>

definition titled_doc :: cheerio where
  "titled_doc =
     example_doc(''title'' := [\<lparr> attribs = (\<lambda>name. None), textContent = js ''Hello'' \<rparr>])"

definition linked_doc :: cheerio where
  "linked_doc =
     example_doc(''a'' :=
       [\<lparr> attribs = (\<lambda>name. if name = js ''href'' then Some (js ''http://example.org/page'')
                                else None),
          textContent = [] \<rparr>])"

text \<open>A component state whose URL has another scheme.\<close>

definition ftp_state :: component_state where
  "ftp_state =
     \<lparr> url_st = js ''ftp://example.com'', results_st = None, loading_st = False,
       error_st = [] \<rparr>"

section \<open>Bounds on the issue lists\<close>

lemma length_push_if: "length (push_if b x) \<le> 1"
  by (simp add: push_if_def)

lemma length_titleIssues: "length (titleIssues t) \<le> 1"
  by (simp add: titleIssues_def)

lemma length_descriptionIssues: "length (descriptionIssues v) \<le> 1"
  by (simp add: descriptionIssues_def split: option.split)

lemma length_metaIssuesOf: "length (metaIssuesOf doc) \<le> 9"
proof -
  note b = length_titleIssues [of "title doc"]
    length_descriptionIssues [of "description doc"]
    length_push_if [of "falsy (keywords_meta doc)" "js ''Missing meta keywords''"]
    length_push_if [of "falsy (robots doc)" "js ''Missing robots meta tag''"]
    length_push_if [of "falsy (canonical doc)" "js ''Missing canonical URL''"]
    length_push_if [of "falsy (viewport doc)" "js ''Missing viewport meta tag''"]
    length_push_if [of "falsy (charset doc)" "js ''Missing charset meta tag''"]
    length_push_if [of "length (ogTags doc) = 0" "js ''Missing Open Graph tags''"]
    length_push_if [of "length (twitterTags doc) = 0" "js ''Missing Twitter Card tags''"]
  show ?thesis
    unfolding metaIssuesOf_def length_append using b by linarith
qed

text \<open>The two H1 checks are separate \<^verbatim>\<open>if\<close>s whose conditions exclude each other.\<close>

lemma length_h1_checks:
  "length (push_if (n = 0) x) + length (push_if (n > (1::nat)) y) \<le> 1"
  by (simp add: push_if_def)

lemma length_contentChecks: "length (contentChecks doc a b) \<le> 8"
proof -
  note bnd = length_h1_checks [of "h1Count doc" "js ''Missing H1 heading''"
      "js ''Multiple H1 headings detected (should have exactly one)''"]
    length_push_if [of "a > 0" "numberToString a @ js '' images missing alt text''"]
    length_push_if [of "b = 0"
      "js ''No external links found (consider adding relevant outbound links)''"]
    length_push_if [of "wordCount doc < 300"
      "js ''Content length is too short (should be at least 300 words)''"]
    length_push_if [of "length (paragraphs doc) < 3"
      "js ''Too few paragraphs (should have at least 3 paragraphs)''"]
    length_push_if [of "length (headings doc) < 2"
      "js ''Too few headings (should use proper heading hierarchy)''"]
    length_push_if [of "length (lists doc) = 0"
      "js ''No lists found (consider using bullet points or numbered lists)''"]
    length_push_if [of "length (tables doc) = 0"
      "js ''No tables found (consider using tables for structured data)''"]
  show ?thesis
    unfolding contentChecks_def length_append using bnd by linarith
qed

lemma length_contentIssuesOf: "length (contentIssuesOf url doc) \<le> 8"
  by (simp add: contentIssuesOf_def length_contentChecks)

lemma length_performanceChecks: "length (performanceChecks doc n) \<le> 6"
proof -
  have "length (performanceChecks doc n) \<le> 1 + (1 + (1 + (1 + (1 + 1))))"
    unfolding performanceChecks_def length_append [of "push_if _ _"]
    by (intro add_mono length_push_if)
  then show ?thesis by simp
qed

lemma length_performanceIssuesOf: "length (performanceIssuesOf doc) \<le> 6"
  by (simp add: performanceIssuesOf_def length_performanceChecks)

section \<open>The fetch loop\<close>

lemma succeeded_Inl [simp]: "\<not> succeeded (Inl e)"
  by (simp add: succeeded_def)

lemma succeeded_Inr [simp]: "succeeded (Inr body) = (body \<noteq> [])"
  by (simp add: succeeded_def)

lemma length_attempts [simp]: "length (attempts get url ps w) = length ps"
  by (induction ps arbitrary: w) (auto split: sum.splits prod.splits)

text \<open>
  The loop stops at the first iteration that succeeds.  \<open>k\<close> counts the failures before
  it; the requests made are those of the first \<open>k + 1\<close> proxies.
\<close>

lemma fetchLoop_scan:
  "fetchLoop get url ps le w reqs = (r, w', reqs') \<Longrightarrow>
   reqs' = reqs @ proxyUrls url
     (take (Suc (length (takeWhile (\<lambda>x. \<not> succeeded x) (attempts get url ps w)))) ps)"
proof (induction ps arbitrary: le w reqs)
  case Nil
  then show ?case by simp
next
  case (Cons p ps)
  show ?case
  proof (cases "p url")
    case (Inl e)
    then show ?thesis using Cons.IH [of "Some e" w reqs] Cons.prems by simp
  next
    case (Inr u)
    obtain x w1 where g: "get w u = (x, w1)" by (cases "get w u")
    show ?thesis
    proof (cases x)
      case (Inl e)
      then show ?thesis
        using Cons.IH [of "Some e" w1 "reqs @ [u]"] Cons.prems Inr g by simp
    next
      case body: (Inr body)
      then show ?thesis
        using Cons.IH [of le w1 "reqs @ [u]"] Cons.prems Inr g by (simp split: if_splits)
    qed
  qed
qed

lemma fetchLoop_result:
  "fst (fetchLoop get url ps le w reqs) =
     (let outs = attempts get url ps w;
          k = length (takeWhile (\<lambda>x. \<not> succeeded x) outs)
      in if k < length ps then outs ! k
         else Inl (case caught outs of [] \<Rightarrow> thrownAtEnd le | e # es \<Rightarrow> last (e # es)))"
proof (induction ps arbitrary: le w reqs)
  case Nil
  then show ?case by simp
next
  case (Cons p ps)
  show ?case
  proof (cases "p url")
    case (Inl e)
    then show ?thesis using Cons.IH [of "Some e" w reqs]
      by (simp add: Let_def thrownAtEnd_def split: list.splits)
  next
    case (Inr u)
    obtain x w1 where g: "get w u = (x, w1)" by (cases "get w u")
    show ?thesis
    proof (cases x)
      case (Inl e)
      then show ?thesis
        using Cons.IH [of "Some e" w1 "reqs @ [u]"] Inr g
        by (simp add: Let_def thrownAtEnd_def split: list.splits)
    next
      case body: (Inr body)
      then show ?thesis
        using Cons.IH [of le w1 "reqs @ [u]"] Inr g by (simp add: Let_def)
    qed
  qed
qed

lemma nth_takeWhile_stop:
  "length (takeWhile P xs) < length xs \<Longrightarrow> \<not> P (xs ! length (takeWhile P xs))"
  by (simp add: nth_length_takeWhile)

lemma length_PROXY_SERVICES: "length PROXY_SERVICES = 3"
  by (simp add: PROXY_SERVICES_def)

lemma js_Nil [simp]: "js [] = []"
  by (simp add: js_def)

lemma take_PROXY_SERVICES:
  "take n PROXY_SERVICES =
     (if n = 0 then [] else if n = 1 then [PROXY_SERVICES ! 0]
      else if n = 2 then [PROXY_SERVICES ! 0, PROXY_SERVICES ! 1] else PROXY_SERVICES)"
proof -
  consider "n = 0" | "n = 1" | "n = 2" | "n \<ge> 3" by linarith
  then show ?thesis
    by cases (auto simp: PROXY_SERVICES_def numeral_2_eq_2)
qed

lemma proxyUrls_take_distinct: "distinct (proxyUrls url (take n PROXY_SERVICES))"
proof (cases "encodeURIComponent url")
  case (Inl e)
  then show ?thesis
    by (simp add: take_PROXY_SERVICES) (simp add: PROXY_SERVICES_def)
next
  case (Inr enc)
  then show ?thesis
    by (simp add: take_PROXY_SERVICES) (simp add: PROXY_SERVICES_def js_def)
qed

text \<open>The loop never returns an empty body.\<close>

lemma fetchLoop_never_empty: "fst (fetchLoop get url ps le w reqs) \<noteq> Inr []"
proof (induction ps arbitrary: le w reqs)
  case Nil
  then show ?case by simp
next
  case (Cons p ps)
  show ?case
  proof (cases "p url")
    case (Inl e)
    then show ?thesis using Cons.IH [of "Some e" w reqs] by simp
  next
    case (Inr u)
    obtain x w1 where g: "get w u = (x, w1)" by (cases "get w u")
    show ?thesis
    proof (cases x)
      case (Inl e)
      then show ?thesis using Cons.IH [of "Some e" w1 "reqs @ [u]"] Inr g by simp
    next
      case body: (Inr body)
      then show ?thesis using Cons.IH [of le w1 "reqs @ [u]"] Inr g by simp
    qed
  qed
qed

section \<open>Claims about fetchWithFallback\<close>

text \<open>
  Claim C2.  For every URL, network and state of the world, \<^verbatim>\<open>fetchWithFallback\<close> tries
  the proxies one after the other in the order of the three-element list
  \<open>PROXY_SERVICES\<close>, each at most once: with \<open>k\<close> the number of iterations that fail
  before the first success, the requests made are exactly the URLs of the first
  \<open>k + 1\<close> proxies, in list order and without repetition.  When some iteration
  succeeds (\<open>k < 3\<close>) the value returned is the non-empty body of that first successful
  iteration and no later proxy is requested; otherwise an error is thrown.
\<close>

theorem fetchWithFallback_first_success:
  "fetchWithFallback get w url = (r, w', requests) \<Longrightarrow>
   (let outs = attempts get url PROXY_SERVICES w;
        k = length (takeWhile (\<lambda>x. \<not> succeeded x) outs)
    in length PROXY_SERVICES = 3 \<and>
       requests = proxyUrls url (take (Suc k) PROXY_SERVICES) \<and>
       distinct requests \<and>
       (if k < 3 then r = outs ! k \<and> (\<exists>body. r = Inr body \<and> body \<noteq> [])
        else (\<exists>e. r = Inl e)))"
proof -
  assume a: "fetchWithFallback get w url = (r, w', requests)"
  define outs where "outs = attempts get url PROXY_SERVICES w"
  define k where "k = length (takeWhile (\<lambda>x. \<not> succeeded x) outs)"
  have len: "length outs = 3" by (simp add: outs_def length_PROXY_SERVICES)
  have reqs: "requests = proxyUrls url (take (Suc k) PROXY_SERVICES)"
    using fetchLoop_scan [of get url PROXY_SERVICES None w "[]" r w' requests] a
    by (simp add: fetchWithFallback_def k_def outs_def)
  have res: "r = (if k < 3 then outs ! k
      else Inl (case caught outs of [] \<Rightarrow> thrownAtEnd None | e # es \<Rightarrow> last (e # es)))"
    using fetchLoop_result [of get url PROXY_SERVICES None w "[]"] a
    by (simp add: fetchWithFallback_def Let_def k_def outs_def length_PROXY_SERVICES)
  have stop: "k < 3 \<Longrightarrow> succeeded (outs ! k)"
    using nth_takeWhile_stop [of "\<lambda>x. \<not> succeeded x" outs] len by (simp add: k_def)
  have body: "k < 3 \<Longrightarrow> \<exists>body. r = Inr body \<and> body \<noteq> []"
    using stop res by (cases "outs ! k") auto
  show ?thesis
    unfolding Let_def outs_def [symmetric] k_def [symmetric]
    using reqs res body proxyUrls_take_distinct [of url "Suc k"]
    by (auto simp: length_PROXY_SERVICES)
qed

text \<open>
  The theorem at a network whose first proxy times out and whose second proxy answers
  with an empty body: all three proxies are requested, in order, and the third body is
  returned.
\<close>

theorem fetchWithFallback_first_success_witness:
  "fetchWithFallback net_flaky 0 example_url =
     (Inr example_page, 3,
      [js ''https://api.allorigins.win/raw?url=https%3A%2F%2Fexample.com'',
       js ''https://corsproxy.io/?https%3A%2F%2Fexample.com'',
       js ''https://api.codetabs.com/v1/proxy?quest=https%3A%2F%2Fexample.com'']) \<and>
   attempts net_flaky example_url PROXY_SERVICES 0 =
     [Inl (AxiosError (Some (js ''ECONNABORTED'')) None (js ''timeout of 15000ms exceeded'')),
      Inr [], Inr example_page] \<and>
   [js ''https://api.allorigins.win/raw?url=https%3A%2F%2Fexample.com'',
    js ''https://corsproxy.io/?https%3A%2F%2Fexample.com'',
    js ''https://api.codetabs.com/v1/proxy?quest=https%3A%2F%2Fexample.com''] =
     proxyUrls example_url (take 3 PROXY_SERVICES) \<and>
   distinct
     [js ''https://api.allorigins.win/raw?url=https%3A%2F%2Fexample.com'',
      js ''https://corsproxy.io/?https%3A%2F%2Fexample.com'',
      js ''https://api.codetabs.com/v1/proxy?quest=https%3A%2F%2Fexample.com'']"
proof -
  have h: "fetchWithFallback net_flaky 0 example_url =
     (Inr example_page, 3,
      [js ''https://api.allorigins.win/raw?url=https%3A%2F%2Fexample.com'',
       js ''https://corsproxy.io/?https%3A%2F%2Fexample.com'',
       js ''https://api.codetabs.com/v1/proxy?quest=https%3A%2F%2Fexample.com''])"
    by code_simp
  have o: "attempts net_flaky example_url PROXY_SERVICES 0 =
     [Inl (AxiosError (Some (js ''ECONNABORTED'')) None (js ''timeout of 15000ms exceeded'')),
      Inr [], Inr example_page]"
    by code_simp
  have k: "length (takeWhile (\<lambda>x. \<not> succeeded x)
      (attempts net_flaky example_url PROXY_SERVICES 0)) = 2"
    unfolding o by (simp add: example_page_def js_def)
  have s: "Suc 2 = 3" by simp
  from fetchWithFallback_first_success [OF h] show ?thesis
    unfolding Let_def k s using h o by blast
qed

lemma rethrow_is_Error: "\<exists>msg. rethrow e = Error msg"
  by (cases e) (simp_all add: rethrow_def)

lemma fetch_fails_analyzeSeo_rejects:
  "fst (fetchWithFallback get w url) = Inl e \<Longrightarrow>
   fst (analyzeSeo get load w url) = Inl (rethrow e)"
  by (auto simp: analyzeSeo_def split: prod.splits sum.splits)

lemma takeWhile_all_fail:
  "list_all (\<lambda>x. \<not> succeeded x) outs \<Longrightarrow>
   length (takeWhile (\<lambda>x. \<not> succeeded x) outs) = length outs"
  by (simp add: list_all_iff takeWhile_eq_all_conv [THEN iffD2])

lemma thrownAtEnd_None: "thrownAtEnd None = Error (js ''All proxy services failed'')"
  by (simp add: thrownAtEnd_def)

text \<open>
  Claim C3.  If every iteration of the loop fails (its \<^verbatim>\<open>try\<close> block throws, or the
  body of the response is empty), \<^verbatim>\<open>fetchWithFallback\<close> throws: the error caught last
  when one was caught, and otherwise the error \<^verbatim>\<open>All proxy services failed\<close>.
  \<^verbatim>\<open>analyzeSeo\<close> then rejects with the \<^verbatim>\<open>Error\<close> its \<^verbatim>\<open>catch\<close> block builds from that
  error, and returns no result.
\<close>

theorem all_attempts_fail_throws:
  "list_all (\<lambda>x. \<not> succeeded x) (attempts get url PROXY_SERVICES w) \<Longrightarrow>
   (let e = (case caught (attempts get url PROXY_SERVICES w) of
               [] \<Rightarrow> Error (js ''All proxy services failed'')
             | e # es \<Rightarrow> last (e # es))
    in fst (fetchWithFallback get w url) = Inl e \<and>
       fst (analyzeSeo get load w url) = Inl (rethrow e) \<and>
       (\<exists>msg. rethrow e = Error msg))"
proof -
  assume a: "list_all (\<lambda>x. \<not> succeeded x) (attempts get url PROXY_SERVICES w)"
  have f: "fst (fetchWithFallback get w url) =
     Inl (case caught (attempts get url PROXY_SERVICES w) of
            [] \<Rightarrow> Error (js ''All proxy services failed'')
          | e # es \<Rightarrow> last (e # es))"
    using fetchLoop_result [of get url PROXY_SERVICES None w "[]"] takeWhile_all_fail [OF a]
    unfolding thrownAtEnd_None by (simp add: fetchWithFallback_def Let_def)
  show ?thesis
    unfolding Let_def
    using f fetch_fails_analyzeSeo_rejects [OF f, of load] rethrow_is_Error by blast
qed

text \<open>The theorem at a network where every request fails with a network error.\<close>

theorem all_attempts_fail_throws_witness:
  "list_all (\<lambda>x. \<not> succeeded x) (attempts net_down example_url PROXY_SERVICES 0) \<and>
   fst (fetchWithFallback net_down 0 example_url) =
     Inl (AxiosError (Some (js ''ERR_NETWORK'')) None (js ''Network Error'')) \<and>
   fst (analyzeSeo net_down example_load 0 example_url) =
     Inl (Error (js ''Unable to analyze website: Network Error''))"
proof -
  have o: "attempts net_down example_url PROXY_SERVICES 0 =
      replicate 3 (Inl (AxiosError (Some (js ''ERR_NETWORK'')) None (js ''Network Error'')))"
    by code_simp
  have h: "list_all (\<lambda>x. \<not> succeeded x) (attempts net_down example_url PROXY_SERVICES 0)"
    unfolding o by (simp add: numeral_3_eq_3)
  have c: "(case caught (attempts net_down example_url PROXY_SERVICES 0) of
              [] \<Rightarrow> Error (js ''All proxy services failed'')
            | e # es \<Rightarrow> last (e # es)) =
      AxiosError (Some (js ''ERR_NETWORK'')) None (js ''Network Error'')"
    unfolding o by (simp add: numeral_3_eq_3)
  have r: "rethrow (AxiosError (Some (js ''ERR_NETWORK'')) None (js ''Network Error'')) =
      Error (js ''Unable to analyze website: Network Error'')"
    by (simp add: rethrow_def js_def)
  from all_attempts_fail_throws [OF h, of example_load] show ?thesis
    unfolding Let_def c r using h by blast
qed

text \<open>
  Claim C9.  A response without error whose body is empty counts as a failure.  In the
  loop, such a response makes the next iteration run with the remaining proxies and
  \<^verbatim>\<open>lastError\<close> unchanged; \<^verbatim>\<open>fetchWithFallback\<close> never returns the empty body; and
  when every proxy answers with an empty body and none throws, all three proxies are
  requested and the error \<^verbatim>\<open>All proxy services failed\<close> is thrown.
\<close>

theorem empty_body_is_a_failure:
  "(proxyService url = Inr proxyUrl \<and> get w proxyUrl = (Inr [], w1) \<longrightarrow>
      fetchLoop get url (proxyService # rest) lastError w requests =
      fetchLoop get url rest lastError w1 (requests @ [proxyUrl])) \<and>
   fst (fetchWithFallback get w url) \<noteq> Inr [] \<and>
   (attempts get url PROXY_SERVICES w = [Inr [], Inr [], Inr []] \<longrightarrow>
      fst (fetchWithFallback get w url) = Inl (Error (js ''All proxy services failed'')) \<and>
      snd (snd (fetchWithFallback get w url)) = proxyUrls url PROXY_SERVICES)"
proof (intro conjI impI)
  assume "proxyService url = Inr proxyUrl \<and> get w proxyUrl = (Inr [], w1)"
  then show "fetchLoop get url (proxyService # rest) lastError w requests =
      fetchLoop get url rest lastError w1 (requests @ [proxyUrl])"
    by simp
next
  show "fst (fetchWithFallback get w url) \<noteq> Inr []"
    by (simp add: fetchWithFallback_def fetchLoop_never_empty)
next
  assume o: "attempts get url PROXY_SERVICES w = [Inr [], Inr [], Inr []]"
  have a: "list_all (\<lambda>x. \<not> succeeded x) (attempts get url PROXY_SERVICES w)"
    unfolding o by simp
  show "fst (fetchWithFallback get w url) = Inl (Error (js ''All proxy services failed''))"
    using fetchLoop_result [of get url PROXY_SERVICES None w "[]"]
    by (simp add: fetchWithFallback_def o Let_def thrownAtEnd_None length_PROXY_SERVICES)
  obtain r w' reqs where f: "fetchWithFallback get w url = (r, w', reqs)"
    by (cases "fetchWithFallback get w url")
  show "snd (snd (fetchWithFallback get w url)) = proxyUrls url PROXY_SERVICES"
    using fetchLoop_scan [of get url PROXY_SERVICES None w "[]" r w' reqs] f
    by (simp add: fetchWithFallback_def o length_PROXY_SERVICES)
qed


text \<open>The theorem at a network that answers every request with an empty body.\<close>

theorem empty_body_is_a_failure_witness:
  "(PROXY_SERVICES ! 0) example_url =
     Inr (js ''https://api.allorigins.win/raw?url=https%3A%2F%2Fexample.com'') \<and>
   net_empty 0 (js ''https://api.allorigins.win/raw?url=https%3A%2F%2Fexample.com'') =
     (Inr [], 1) \<and>
   fetchLoop net_empty example_url (PROXY_SERVICES ! 0 # tl PROXY_SERVICES) None 0 [] =
   fetchLoop net_empty example_url (tl PROXY_SERVICES) None 1
     ([] @ [js ''https://api.allorigins.win/raw?url=https%3A%2F%2Fexample.com'']) \<and>
   attempts net_empty example_url PROXY_SERVICES 0 = [Inr [], Inr [], Inr []] \<and>
   fst (fetchWithFallback net_empty 0 example_url) =
     Inl (Error (js ''All proxy services failed'')) \<and>
   snd (snd (fetchWithFallback net_empty 0 example_url)) =
     proxyUrls example_url PROXY_SERVICES"
proof -
  have p: "(PROXY_SERVICES ! 0) example_url =
      Inr (js ''https://api.allorigins.win/raw?url=https%3A%2F%2Fexample.com'')"
    by code_simp
  have g: "net_empty 0 (js ''https://api.allorigins.win/raw?url=https%3A%2F%2Fexample.com'') =
      (Inr [], 1)"
    by (simp add: net_empty_def)
  have o: "attempts net_empty example_url PROXY_SERVICES 0 = [Inr [], Inr [], Inr []]"
    by code_simp
  note t = empty_body_is_a_failure [of "PROXY_SERVICES ! 0" example_url
      "js ''https://api.allorigins.win/raw?url=https%3A%2F%2Fexample.com''"
      net_empty 0 1 "tl PROXY_SERVICES" None "[]"]
  from t p g o show ?thesis by blast
qed

section \<open>Successive calls\<close>

lemma first_request:
  "fetchWithFallback get w url = (r, w', requests) \<Longrightarrow>
   take 1 requests = proxyUrls url [PROXY_SERVICES ! 0]"
proof -
  assume a: "fetchWithFallback get w url = (r, w', requests)"
  define k where
    "k = length (takeWhile (\<lambda>x. \<not> succeeded x) (attempts get url PROXY_SERVICES w))"
  have "requests = proxyUrls url (take (Suc k) PROXY_SERVICES)"
    using fetchLoop_scan [of get url PROXY_SERVICES None w "[]" r w' requests] a
    by (simp add: fetchWithFallback_def k_def)
  then show ?thesis
    by (cases "encodeURIComponent url")
       (simp_all add: take_PROXY_SERVICES, simp_all add: PROXY_SERVICES_def)
qed

lemma proxyUrls_all:
  "proxyUrls url PROXY_SERVICES =
     (case encodeURIComponent url of
        Inl e \<Rightarrow> []
      | Inr enc \<Rightarrow>
          [js ''https://api.allorigins.win/raw?url='' @ enc,
           js ''https://corsproxy.io/?'' @ enc,
           js ''https://api.codetabs.com/v1/proxy?quest='' @ enc])"
  by (simp add: PROXY_SERVICES_def split: sum.splits)

lemma requests_of_call:
  "fetchWithFallback get w url = (r, w', requests) \<Longrightarrow>
   requests = proxyUrls url
     (take (Suc (length (takeWhile (\<lambda>x. \<not> succeeded x)
        (attempts get url PROXY_SERVICES w)))) PROXY_SERVICES)"
  using fetchLoop_scan [of get url PROXY_SERVICES None w "[]" r w' requests]
  by (simp add: fetchWithFallback_def)

lemma calls_in_order:
  "(url, requests) \<in> set (successiveCalls get w urls) \<Longrightarrow>
   \<exists>w0. (w0, url, requests) \<in> set (zip (statesBefore get w urls) (successiveCalls get w urls)) \<and>
        requests = proxyUrls url
          (take (Suc (length (takeWhile (\<lambda>x. \<not> succeeded x)
             (attempts get url PROXY_SERVICES w0)))) PROXY_SERVICES)"
proof (induction urls arbitrary: w)
  case Nil
  then show ?case by simp
next
  case (Cons u us)
  obtain r w' reqs where f: "fetchWithFallback get w u = (r, w', reqs)"
    by (cases "fetchWithFallback get w u")
  from Cons.prems f
  consider "url = u \<and> requests = reqs" | "(url, requests) \<in> set (successiveCalls get w' us)"
    by auto
  then show ?case
  proof cases
    case 1
    then show ?thesis using requests_of_call [OF f] f by auto
  next
    case 2
    from Cons.IH [OF 2] obtain w0 where
      "(w0, url, requests) \<in> set (zip (statesBefore get w' us) (successiveCalls get w' us))"
      "requests = proxyUrls url
          (take (Suc (length (takeWhile (\<lambda>x. \<not> succeeded x)
             (attempts get url PROXY_SERVICES w0)))) PROXY_SERVICES)"
      by blast
    then show ?thesis using f by auto
  qed
qed

lemma calls_first_request:
  "(url, requests) \<in> set (successiveCalls get w urls) \<Longrightarrow>
   take 1 requests = proxyUrls url [PROXY_SERVICES ! 0]"
proof (induction urls arbitrary: w)
  case Nil
  then show ?case by simp
next
  case (Cons u us)
  obtain r w' reqs where f: "fetchWithFallback get w u = (r, w', reqs)"
    by (cases "fetchWithFallback get w u")
  from Cons.prems f
  consider "url = u \<and> requests = reqs" | "(url, requests) \<in> set (successiveCalls get w' us)"
    by auto
  then show ?case
  proof cases
    case 1
    then show ?thesis using first_request [OF f] by simp
  next
    case 2
    then show ?thesis by (rule Cons.IH)
  qed
qed

text \<open>
  Claim C7, amended.  There is no rotation: the program keeps no state between calls.
  In every call of a sequence of successive calls the first request goes to the first
  proxy of \<open>PROXY_SERVICES\<close> (no request at all is made when that proxy cannot build its
  URL), and the call falls back through the list in the same fixed order, allorigins,
  corsproxy, codetabs: with \<open>w0\<close> the state of the world in which the call starts and
  \<open>k\<close> the number of iterations that fail from \<open>w0\<close> on before the first success, its
  requests are exactly the URLs of the first \<open>k + 1\<close> proxies of the list, whatever the
  earlier calls did.
\<close>

theorem every_call_uses_the_fixed_order:
  "(url, requests) \<in> set (successiveCalls get w urls) \<Longrightarrow>
   take 1 requests = proxyUrls url [PROXY_SERVICES ! 0] \<and>
   (\<exists>w0. (w0, url, requests)
            \<in> set (zip (statesBefore get w urls) (successiveCalls get w urls)) \<and>
         requests = proxyUrls url
           (take (Suc (length (takeWhile (\<lambda>x. \<not> succeeded x)
              (attempts get url PROXY_SERVICES w0)))) PROXY_SERVICES)) \<and>
   proxyUrls url PROXY_SERVICES =
     (case encodeURIComponent url of
        Inl e \<Rightarrow> []
      | Inr enc \<Rightarrow>
          [js ''https://api.allorigins.win/raw?url='' @ enc,
           js ''https://corsproxy.io/?'' @ enc,
           js ''https://api.codetabs.com/v1/proxy?quest='' @ enc])"
proof (intro conjI)
  assume a: "(url, requests) \<in> set (successiveCalls get w urls)"
  show "take 1 requests = proxyUrls url [PROXY_SERVICES ! 0]"
    using a by (rule calls_first_request)
  show "\<exists>w0. (w0, url, requests)
            \<in> set (zip (statesBefore get w urls) (successiveCalls get w urls)) \<and>
         requests = proxyUrls url
           (take (Suc (length (takeWhile (\<lambda>x. \<not> succeeded x)
              (attempts get url PROXY_SERVICES w0)))) PROXY_SERVICES)"
    using a by (rule calls_in_order)
  show "proxyUrls url PROXY_SERVICES =
     (case encodeURIComponent url of
        Inl e \<Rightarrow> []
      | Inr enc \<Rightarrow>
          [js ''https://api.allorigins.win/raw?url='' @ enc,
           js ''https://corsproxy.io/?'' @ enc,
           js ''https://api.codetabs.com/v1/proxy?quest='' @ enc])"
    by (rule proxyUrls_all)
qed

text \<open>
  The theorem at two successive calls on a network where every request fails: both calls
  request allorigins, corsproxy and codetabs, in this order.
\<close>

theorem every_call_uses_the_fixed_order_witness:
  "(example_url,
    [js ''https://api.allorigins.win/raw?url=https%3A%2F%2Fexample.com'',
     js ''https://corsproxy.io/?https%3A%2F%2Fexample.com'',
     js ''https://api.codetabs.com/v1/proxy?quest=https%3A%2F%2Fexample.com''])
     \<in> set (successiveCalls net_down 0 [example_url, example_url]) \<and>
   successiveCalls net_down 0 [example_url, example_url] =
     [(example_url,
       [js ''https://api.allorigins.win/raw?url=https%3A%2F%2Fexample.com'',
        js ''https://corsproxy.io/?https%3A%2F%2Fexample.com'',
        js ''https://api.codetabs.com/v1/proxy?quest=https%3A%2F%2Fexample.com'']),
      (example_url,
       [js ''https://api.allorigins.win/raw?url=https%3A%2F%2Fexample.com'',
        js ''https://corsproxy.io/?https%3A%2F%2Fexample.com'',
        js ''https://api.codetabs.com/v1/proxy?quest=https%3A%2F%2Fexample.com''])] \<and>
   statesBefore net_down 0 [example_url, example_url] = [0, 3] \<and>
   take 1
     [js ''https://api.allorigins.win/raw?url=https%3A%2F%2Fexample.com'',
      js ''https://corsproxy.io/?https%3A%2F%2Fexample.com'',
      js ''https://api.codetabs.com/v1/proxy?quest=https%3A%2F%2Fexample.com''] =
     proxyUrls example_url [PROXY_SERVICES ! 0] \<and>
   proxyUrls example_url PROXY_SERVICES =
     (case encodeURIComponent example_url of
        Inl e \<Rightarrow> []
      | Inr enc \<Rightarrow>
          [js ''https://api.allorigins.win/raw?url='' @ enc,
           js ''https://corsproxy.io/?'' @ enc,
           js ''https://api.codetabs.com/v1/proxy?quest='' @ enc])"
proof -
  have c: "successiveCalls net_down 0 [example_url, example_url] =
     [(example_url,
       [js ''https://api.allorigins.win/raw?url=https%3A%2F%2Fexample.com'',
        js ''https://corsproxy.io/?https%3A%2F%2Fexample.com'',
        js ''https://api.codetabs.com/v1/proxy?quest=https%3A%2F%2Fexample.com'']),
      (example_url,
       [js ''https://api.allorigins.win/raw?url=https%3A%2F%2Fexample.com'',
        js ''https://corsproxy.io/?https%3A%2F%2Fexample.com'',
        js ''https://api.codetabs.com/v1/proxy?quest=https%3A%2F%2Fexample.com''])]"
    by code_simp
  have s: "statesBefore net_down 0 [example_url, example_url] = [0, 3]"
    by code_simp
  have h: "(example_url,
    [js ''https://api.allorigins.win/raw?url=https%3A%2F%2Fexample.com'',
     js ''https://corsproxy.io/?https%3A%2F%2Fexample.com'',
     js ''https://api.codetabs.com/v1/proxy?quest=https%3A%2F%2Fexample.com''])
     \<in> set (successiveCalls net_down 0 [example_url, example_url])"
    unfolding c by simp
  from every_call_uses_the_fixed_order [OF h] h c s show ?thesis by blast
qed

text \<open>
  Claim C7 as stated fails: in three successive calls on a network that always answers,
  every call requests the first proxy (allorigins) and no other.
\<close>

theorem no_rotation_counterexample:
  "successiveCalls net_ok 0 [example_url, example_url, example_url] =
     [(example_url, [js ''https://api.allorigins.win/raw?url=https%3A%2F%2Fexample.com'']),
      (example_url, [js ''https://api.allorigins.win/raw?url=https%3A%2F%2Fexample.com'']),
      (example_url, [js ''https://api.allorigins.win/raw?url=https%3A%2F%2Fexample.com''])]"
  by code_simp

section \<open>The result object\<close>

text \<open>
  Claim C6.  When the fetch returns a page and the parser returns its document,
  \<^verbatim>\<open>analyzeSeo\<close> returns an object of exactly six fields, a score and an issue list
  for each of the three dimensions metadata, content and performance; the record type
  \<open>SeoAnalysisResult\<close> has no further field.
\<close>

theorem analyzeSeo_returns_three_dimensions:
  "fetchWithFallback get w url = (Inr html, w', requests) \<Longrightarrow> load html = Inr doc \<Longrightarrow>
   fst (analyzeSeo get load w url) =
     Inr \<lparr> metaScore = max 0 (100 - int (length (metaIssuesOf doc)) * 10),
           metaIssues = metaIssuesOf doc,
           contentScore = max 0 (100 - int (length (contentIssuesOf url doc)) * 8),
           contentIssues = contentIssuesOf url doc,
           performanceScore = max 0 (100 - int (length (performanceIssuesOf doc)) * 8),
           performanceIssues = performanceIssuesOf doc \<rparr>"
  by (simp add: analyzeSeo_def analyzeDocument_def scoreResult_def)

text \<open>The theorem at the example page on a network that always answers.\<close>

theorem analyzeSeo_returns_three_dimensions_witness:
  "fetchWithFallback net_ok 0 example_url =
     (Inr example_page, 1,
      [js ''https://api.allorigins.win/raw?url=https%3A%2F%2Fexample.com'']) \<and>
   example_load example_page = Inr example_doc \<and>
   fst (analyzeSeo net_ok example_load 0 example_url) =
     Inr \<lparr> metaScore = max 0 (100 - int (length (metaIssuesOf example_doc)) * 10),
           metaIssues = metaIssuesOf example_doc,
           contentScore = max 0 (100 - int (length (contentIssuesOf example_url example_doc)) * 8),
           contentIssues = contentIssuesOf example_url example_doc,
           performanceScore = max 0 (100 - int (length (performanceIssuesOf example_doc)) * 8),
           performanceIssues = performanceIssuesOf example_doc \<rparr>"
proof -
  have f: "fetchWithFallback net_ok 0 example_url =
     (Inr example_page, 1,
      [js ''https://api.allorigins.win/raw?url=https%3A%2F%2Fexample.com''])"
    by code_simp
  have l: "example_load example_page = Inr example_doc"
    by (simp add: example_load_def)
  from analyzeSeo_returns_three_dimensions [where load = example_load, OF f l] f l
  show ?thesis by blast
qed

section \<open>The component\<close>

text \<open>
  Claim C10.  When the URL typed in starts neither with \<^verbatim>\<open>http://\<close> nor with
  \<^verbatim>\<open>https://\<close>, \<^verbatim>\<open>handleAnalysis\<close> only sets the error message: the results, the
  loading flag and the URL are unchanged, the world is unchanged and no request is made,
  whatever the network and the parser are.
\<close>

theorem handleAnalysis_rejects_other_schemes:
  "\<not> startsWith (url_st s) (js ''http://'') \<Longrightarrow> \<not> startsWith (url_st s) (js ''https://'') \<Longrightarrow>
   handleAnalysis get load w s =
     (s\<lparr>error_st := js ''Please enter a valid URL starting with http:// or https://''\<rparr>,
      w, []) \<and>
   results_st (fst (handleAnalysis get load w s)) = results_st s \<and>
   loading_st (fst (handleAnalysis get load w s)) = loading_st s \<and>
   url_st (fst (handleAnalysis get load w s)) = url_st s"
  by (simp add: handleAnalysis_def)

text \<open>The theorem at the input \<^verbatim>\<open>ftp://example.com\<close>.\<close>

theorem handleAnalysis_rejects_other_schemes_witness:
  "\<not> startsWith (url_st ftp_state) (js ''http://'') \<and>
   \<not> startsWith (url_st ftp_state) (js ''https://'') \<and>
   handleAnalysis net_ok example_load 0 ftp_state =
     (ftp_state\<lparr>error_st := js ''Please enter a valid URL starting with http:// or https://''\<rparr>,
      0, [])"
proof -
  have a: "\<not> startsWith (url_st ftp_state) (js ''http://'')"
    by (simp add: ftp_state_def startsWith_def js_def)
  have b: "\<not> startsWith (url_st ftp_state) (js ''https://'')"
    by (simp add: ftp_state_def startsWith_def js_def)
  from handleAnalysis_rejects_other_schemes [OF a b, of net_ok example_load 0] a b
  show ?thesis by blast
qed

section \<open>Claims about the scores\<close>

lemma analyzeSeo_Inr:
  "fst (analyzeSeo get load w url) = Inr res \<Longrightarrow> \<exists>doc. res = analyzeDocument url doc"
  by (auto simp: analyzeSeo_def split: prod.splits sum.splits)

lemma analyzeSeo_example:
  "analyzeSeo net_ok example_load 0 example_url =
     (Inr (analyzeDocument example_url example_doc), 1,
      [js ''https://api.allorigins.win/raw?url=https%3A%2F%2Fexample.com''])"
proof -
  have "fetchWithFallback net_ok 0 example_url =
      (Inr example_page, 1,
       [js ''https://api.allorigins.win/raw?url=https%3A%2F%2Fexample.com''])"
    by code_simp
  then show ?thesis
    by (simp add: analyzeSeo_def example_load_def)
qed

lemma analyzeSeo_Inr_from:
  "fst (analyzeSeo get load w url) = Inr res \<Longrightarrow>
   \<exists>html doc. fst (fetchWithFallback get w url) = Inr html \<and> load html = Inr doc \<and>
     res = analyzeDocument url doc"
  by (auto simp: analyzeSeo_def split: prod.splits sum.splits)

text \<open>
  Claim C1.  Whenever \<^verbatim>\<open>analyzeSeo\<close> returns a result, the fetch returned a page and
  the parser its document, the three issue lists of the result are the issues that
  document triggers, and each score is 100 minus the fixed penalty of its dimension
  times the number of triggered issues of that dimension: 10 per meta issue, 8 per
  content issue, 8 per performance issue.
\<close>

theorem score_is_100_minus_penalties:
  "fst (analyzeSeo get load w url) = Inr res \<Longrightarrow>
   (\<exists>html doc.
      fst (fetchWithFallback get w url) = Inr html \<and> load html = Inr doc \<and>
      metaIssues res = metaIssuesOf doc \<and>
      contentIssues res = contentIssuesOf url doc \<and>
      performanceIssues res = performanceIssuesOf doc \<and>
      metaScore res = 100 - 10 * int (length (metaIssuesOf doc)) \<and>
      contentScore res = 100 - 8 * int (length (contentIssuesOf url doc)) \<and>
      performanceScore res = 100 - 8 * int (length (performanceIssuesOf doc))) \<and>
   metaScore res = 100 - 10 * int (length (metaIssues res)) \<and>
   contentScore res = 100 - 8 * int (length (contentIssues res)) \<and>
   performanceScore res = 100 - 8 * int (length (performanceIssues res))"
proof -
  assume a: "fst (analyzeSeo get load w url) = Inr res"
  obtain html doc where f: "fst (fetchWithFallback get w url) = Inr html"
    and l: "load html = Inr doc" and res: "res = analyzeDocument url doc"
    using analyzeSeo_Inr_from [OF a] by (elim exE conjE)
  have v: "metaIssues res = metaIssuesOf doc \<and>
      contentIssues res = contentIssuesOf url doc \<and>
      performanceIssues res = performanceIssuesOf doc \<and>
      metaScore res = 100 - 10 * int (length (metaIssuesOf doc)) \<and>
      contentScore res = 100 - 8 * int (length (contentIssuesOf url doc)) \<and>
      performanceScore res = 100 - 8 * int (length (performanceIssuesOf doc))"
    using length_metaIssuesOf [of doc] length_contentIssuesOf [of url doc]
      length_performanceIssuesOf [of doc]
    by (simp add: res analyzeDocument_def scoreResult_def)
  then have "metaScore res = 100 - 10 * int (length (metaIssues res)) \<and>
      contentScore res = 100 - 8 * int (length (contentIssues res)) \<and>
      performanceScore res = 100 - 8 * int (length (performanceIssues res))"
    by simp
  with f l v show ?thesis by blast
qed

text \<open>
  The theorem at the example page on a network that always answers: the document
  triggers nine meta issues, seven content issues and no performance issue, and the
  scores are 10, 44 and 100.
\<close>

theorem score_is_100_minus_penalties_witness:
  "fst (analyzeSeo net_ok example_load 0 example_url) =
     Inr (analyzeDocument example_url example_doc) \<and>
   metaIssues (analyzeDocument example_url example_doc) = metaIssuesOf example_doc \<and>
   contentIssues (analyzeDocument example_url example_doc) =
     contentIssuesOf example_url example_doc \<and>
   performanceIssues (analyzeDocument example_url example_doc) =
     performanceIssuesOf example_doc \<and>
   metaScore (analyzeDocument example_url example_doc) =
     100 - 10 * int (length (metaIssuesOf example_doc)) \<and>
   contentScore (analyzeDocument example_url example_doc) =
     100 - 8 * int (length (contentIssuesOf example_url example_doc)) \<and>
   performanceScore (analyzeDocument example_url example_doc) =
     100 - 8 * int (length (performanceIssuesOf example_doc)) \<and>
   length (metaIssuesOf example_doc) = 9 \<and>
   length (contentIssuesOf example_url example_doc) = 7 \<and>
   length (performanceIssuesOf example_doc) = 0"
proof -
  have h: "fst (analyzeSeo net_ok example_load 0 example_url) =
      Inr (analyzeDocument example_url example_doc)"
    by (simp add: analyzeSeo_example)
  have n: "length (metaIssuesOf example_doc) = 9 \<and>
      length (contentIssuesOf example_url example_doc) = 7 \<and>
      length (performanceIssuesOf example_doc) = 0"
    by code_simp
  from score_is_100_minus_penalties [OF h]
  obtain html doc where l: "example_load html = Inr doc"
    and v: "metaIssues (analyzeDocument example_url example_doc) = metaIssuesOf doc \<and>
      contentIssues (analyzeDocument example_url example_doc) = contentIssuesOf example_url doc \<and>
      performanceIssues (analyzeDocument example_url example_doc) = performanceIssuesOf doc \<and>
      metaScore (analyzeDocument example_url example_doc) =
        100 - 10 * int (length (metaIssuesOf doc)) \<and>
      contentScore (analyzeDocument example_url example_doc) =
        100 - 8 * int (length (contentIssuesOf example_url doc)) \<and>
      performanceScore (analyzeDocument example_url example_doc) =
        100 - 8 * int (length (performanceIssuesOf doc))"
    by blast
  from l have d: "doc = example_doc" by (simp add: example_load_def)
  from v h n show ?thesis unfolding d by blast
qed

text \<open>
  Claim C4.  Whenever \<^verbatim>\<open>analyzeSeo\<close> returns a result, every score lies between 0 and
  100.  The lists hold at most 9 meta issues, 8 content issues and 6 performance
  issues, so the value clamped by \<^verbatim>\<open>Math.max(0, ...)\<close> is never negative and
  the scores are at least 10, 36 and 52.
\<close>

theorem scores_in_range:
  "fst (analyzeSeo get load w url) = Inr res \<Longrightarrow>
   length (metaIssues res) \<le> 9 \<and> length (contentIssues res) \<le> 8 \<and>
   length (performanceIssues res) \<le> 6 \<and>
   10 \<le> 100 - int (length (metaIssues res)) * 10 \<and>
   36 \<le> 100 - int (length (contentIssues res)) * 8 \<and>
   52 \<le> 100 - int (length (performanceIssues res)) * 8 \<and>
   10 \<le> metaScore res \<and> metaScore res \<le> 100 \<and>
   36 \<le> contentScore res \<and> contentScore res \<le> 100 \<and>
   52 \<le> performanceScore res \<and> performanceScore res \<le> 100"
proof -
  assume a: "fst (analyzeSeo get load w url) = Inr res"
  obtain doc where res: "res = analyzeDocument url doc"
    using analyzeSeo_Inr [OF a] by (elim exE)
  show ?thesis
    using length_metaIssuesOf [of doc] length_contentIssuesOf [of url doc]
      length_performanceIssuesOf [of doc]
    by (simp add: res analyzeDocument_def scoreResult_def)
qed

text \<open>
  The theorem at the example page, whose document triggers all nine meta checks, seven
  content checks and no performance check.
\<close>

theorem scores_in_range_witness:
  "fst (analyzeSeo net_ok example_load 0 example_url) =
     Inr (analyzeDocument example_url example_doc) \<and>
   length (metaIssues (analyzeDocument example_url example_doc)) \<le> 9 \<and>
   10 \<le> metaScore (analyzeDocument example_url example_doc) \<and>
   36 \<le> contentScore (analyzeDocument example_url example_doc) \<and>
   52 \<le> performanceScore (analyzeDocument example_url example_doc) \<and>
   metaScore (analyzeDocument example_url example_doc) = 10 \<and>
   contentScore (analyzeDocument example_url example_doc) = 44 \<and>
   performanceScore (analyzeDocument example_url example_doc) = 100"
proof -
  have h: "fst (analyzeSeo net_ok example_load 0 example_url) =
      Inr (analyzeDocument example_url example_doc)"
    by (simp add: analyzeSeo_example)
  have v: "metaScore (analyzeDocument example_url example_doc) = 10 \<and>
      contentScore (analyzeDocument example_url example_doc) = 44 \<and>
      performanceScore (analyzeDocument example_url example_doc) = 100"
    by code_simp
  from scores_in_range [OF h] h v show ?thesis by blast
qed

section \<open>Telling the messages apart\<close>

lemma len16: "LENGTH(16) = 16"
  by simp

lemma of_char_less_256: "of_char c < (256::nat)"
proof -
  have "of_char c mod 256 < (256::nat)" by simp
  then show ?thesis by (simp only: of_char_mod_256)
qed

lemma unat_code_unit_of_char: "unat (of_nat (of_char c) :: code_unit) = of_char c"
proof -
  have "(of_char c :: nat) < 2 ^ 16"
    by (rule less_trans [OF of_char_less_256]) simp
  then show ?thesis by (simp only: unat_of_nat len16 mod_less)
qed

lemma inj_js: "inj js"
proof (rule injI)
  fix a b :: string
  assume "js a = js b"
  then have "map unat (js a) = map unat (js b)" by simp
  then have "map (of_char :: char \<Rightarrow> nat) a = map of_char b"
    by (simp add: js_def comp_def unat_code_unit_of_char)
  then show "a = b"
    using inj_of_char [where ?'a = nat] by (simp add: inj_map_eq_map)
qed

lemma js_eq_iff [simp]: "(js a = js b) = (a = b)"
  using inj_js by (simp add: inj_eq)

lemma js_eq_Nil_iff [simp]: "(js a = []) = (a = [])"
  by (simp add: js_def)

text \<open>The decimal rendering is injective: it can be read back.\<close>

lemma unat_digit: "d < 10 \<Longrightarrow> unat (48 + of_nat d :: code_unit) = 48 + d"
proof -
  assume d: "d < 10"
  have "(48 + of_nat d :: code_unit) = of_nat (48 + d)" by simp
  then have "unat (48 + of_nat d :: code_unit) = (48 + d) mod 2 ^ 16"
    by (simp only: unat_of_nat len16)
  then show ?thesis using d by simp
qed

lemma fromDigits_numberToString: "fromDigits (numberToString n) = n"
proof (induction n rule: numberToString.induct)
  case (1 n)
  show ?case
  proof (cases "n < 10")
    case True
    then show ?thesis
      by (subst numberToString.simps) (simp add: fromDigits_def unat_digit)
  next
    case False
    have "n mod 10 < 10" by simp
    then have u: "unat (48 + of_nat (n mod 10) :: code_unit) = 48 + n mod 10"
      by (rule unat_digit)
    from False 1 have ih: "fromDigits (numberToString (n div 10)) = n div 10" by simp
    show ?thesis
      using False ih u
      by (subst numberToString.simps) (simp add: fromDigits_def)
  qed
qed

lemma numberToString_eq_iff: "(numberToString a = numberToString b) = (a = b)"
proof
  assume "numberToString a = numberToString b"
  then have "fromDigits (numberToString a) = fromDigits (numberToString b)"
    by (rule arg_cong)
  then show "a = b" by (simp only: fromDigits_numberToString)
next
  assume "a = b"
  then show "numberToString a = numberToString b" by (rule arg_cong)
qed


lemma mem_push_if: "(m \<in> set (push_if b x)) = (b \<and> m = x)"
  unfolding push_if_def by (cases b) simp_all

lemma mem_titleIssues:
  "(m \<in> set (titleIssues t)) =
     (t = [] \<and> m = js ''Missing title tag'' \<or>
      t \<noteq> [] \<and> length t < 30 \<and>
        m = js ''Title is too short (should be at least 30 characters)'' \<or>
      60 < length t \<and> m = js ''Title is too long (should be less than 60 characters)'')"
  by (auto simp: titleIssues_def)

lemma mem_descriptionIssues:
  "(m \<in> set (descriptionIssues v)) =
     (falsy v \<and> m = js ''Missing meta description'' \<or>
      \<not> falsy v \<and> length (or_empty v) < 120 \<and>
        m = js ''Meta description is too short (should be at least 120 characters)'' \<or>
      160 < length (or_empty v) \<and>
        m = js ''Meta description is too long (should be less than 160 characters)'')"
  by (cases v) (auto simp: descriptionIssues_def falsy_def or_empty_def)

text \<open>Two messages that end differently, or begin differently, are different.\<close>

lemma tail_neq:
  assumes "take 5 (rev s) \<noteq> take 5 (rev t)" and "5 \<le> length s" and "5 \<le> length t"
  shows "a @ js s \<noteq> b @ js t"
proof
  assume "a @ js s = b @ js t"
  then have "take 5 (rev (a @ js s)) = take 5 (rev (b @ js t))" by simp
  then have "take 5 (rev (js s)) = take 5 (rev (js t))"
    using assms(2,3) by (simp add: js_def)
  then have "js (take 5 (rev s)) = js (take 5 (rev t))"
    by (simp add: js_def rev_map take_map)
  then show False using assms(1) by simp
qed

lemma head_neq:
  assumes "take 16 p \<noteq> take 16 q" and "16 \<le> length p" and "16 \<le> length q"
  shows "js p @ x \<noteq> js q @ y"
proof
  assume "js p @ x = js q @ y"
  then have "take 16 (js p @ x) = take 16 (js q @ y)" by simp
  then have "take 16 (js p) = take 16 (js q)"
    using assms(2,3) by (simp add: js_def)
  then have "js (take 16 p) = js (take 16 q)"
    by (simp add: js_def take_map)
  then show False using assms(1) by simp
qed

lemma tail_rules:
  "take 5 (rev s) \<noteq> take 5 (rev t) \<Longrightarrow> 5 \<le> length s \<Longrightarrow> 5 \<le> length t \<Longrightarrow>
     (a @ js s = b @ js t) = False"
  "take 5 (rev s) \<noteq> take 5 (rev t) \<Longrightarrow> 5 \<le> length s \<Longrightarrow> 5 \<le> length t \<Longrightarrow>
     (js s = b @ js t) = False"
  "take 5 (rev s) \<noteq> take 5 (rev t) \<Longrightarrow> 5 \<le> length s \<Longrightarrow> 5 \<le> length t \<Longrightarrow>
     (a @ js s = js t) = False"
  "take 5 (rev s) \<noteq> take 5 (rev t) \<Longrightarrow> 5 \<le> length s \<Longrightarrow> 5 \<le> length t \<Longrightarrow>
     (c @ a @ js s = b @ js t) = False"
  "take 5 (rev s) \<noteq> take 5 (rev t) \<Longrightarrow> 5 \<le> length s \<Longrightarrow> 5 \<le> length t \<Longrightarrow>
     (a @ js s = c @ b @ js t) = False"
  using tail_neq [of s t a b] tail_neq [of s t "[]" b] tail_neq [of s t a "[]"]
    tail_neq [of s t "c @ a" b] tail_neq [of s t a "c @ b"]
  by simp_all

lemma head_rule:
  "take 16 p \<noteq> take 16 q \<Longrightarrow> 16 \<le> length p \<Longrightarrow> 16 \<le> length q \<Longrightarrow>
     (js p @ x = js q @ y) = False"
  using head_neq [of p q x y] by simp

lemma meta_predicates:
  "(js ''Missing title tag'' \<in> set (metaIssuesOf doc)) = (title doc = []) \<and>
   (js ''Title is too short (should be at least 30 characters)'' \<in> set (metaIssuesOf doc)) =
     (title doc \<noteq> [] \<and> length (title doc) < 30) \<and>
   (js ''Title is too long (should be less than 60 characters)'' \<in> set (metaIssuesOf doc)) =
     (60 < length (title doc)) \<and>
   (js ''Missing meta description'' \<in> set (metaIssuesOf doc)) = falsy (description doc) \<and>
   (js ''Meta description is too short (should be at least 120 characters)''
      \<in> set (metaIssuesOf doc)) =
     (\<not> falsy (description doc) \<and> length (or_empty (description doc)) < 120) \<and>
   (js ''Meta description is too long (should be less than 160 characters)''
      \<in> set (metaIssuesOf doc)) =
     (160 < length (or_empty (description doc))) \<and>
   (js ''Missing meta keywords'' \<in> set (metaIssuesOf doc)) = falsy (keywords_meta doc) \<and>
   (js ''Missing robots meta tag'' \<in> set (metaIssuesOf doc)) = falsy (robots doc) \<and>
   (js ''Missing canonical URL'' \<in> set (metaIssuesOf doc)) = falsy (canonical doc) \<and>
   (js ''Missing viewport meta tag'' \<in> set (metaIssuesOf doc)) = falsy (viewport doc) \<and>
   (js ''Missing charset meta tag'' \<in> set (metaIssuesOf doc)) = falsy (charset doc) \<and>
   (js ''Missing Open Graph tags'' \<in> set (metaIssuesOf doc)) = (length (ogTags doc) = 0) \<and>
   (js ''Missing Twitter Card tags'' \<in> set (metaIssuesOf doc)) =
     (length (twitterTags doc) = 0)"
  by (simp add: metaIssuesOf_def mem_titleIssues mem_descriptionIssues mem_push_if)

lemma content_predicates:
  "(js ''Missing H1 heading'' \<in> set (contentChecks doc a b)) = (h1Count doc = 0) \<and>
   (js ''Multiple H1 headings detected (should have exactly one)''
      \<in> set (contentChecks doc a b)) = (1 < h1Count doc) \<and>
   (numberToString n @ js '' images missing alt text'' \<in> set (contentChecks doc a b)) =
     (0 < a \<and> n = a) \<and>
   (js ''No external links found (consider adding relevant outbound links)''
      \<in> set (contentChecks doc a b)) = (b = 0) \<and>
   (js ''Content length is too short (should be at least 300 words)''
      \<in> set (contentChecks doc a b)) = (wordCount doc < 300) \<and>
   (js ''Too few paragraphs (should have at least 3 paragraphs)''
      \<in> set (contentChecks doc a b)) = (length (paragraphs doc) < 3) \<and>
   (js ''Too few headings (should use proper heading hierarchy)''
      \<in> set (contentChecks doc a b)) = (length (headings doc) < 2) \<and>
   (js ''No lists found (consider using bullet points or numbered lists)''
      \<in> set (contentChecks doc a b)) = (length (lists doc) = 0) \<and>
   (js ''No tables found (consider using tables for structured data)''
      \<in> set (contentChecks doc a b)) = (length (tables doc) = 0)"
  by (simp add: contentChecks_def mem_push_if tail_rules numberToString_eq_iff)

lemma performance_predicates:
  "(js ''High number of CSS files ('' @ numberToString n @ js '' found, recommend combining)''
      \<in> set (performanceChecks doc k)) =
     (5 < length (cssFiles doc) \<and> n = length (cssFiles doc)) \<and>
   (js ''High number of JavaScript files ('' @ numberToString n @
    js '' found, recommend combining)'' \<in> set (performanceChecks doc k)) =
     (10 < length (jsFiles doc) \<and> n = length (jsFiles doc)) \<and>
   (numberToString n @ js '' inline styles found (recommend using external CSS)''
      \<in> set (performanceChecks doc k)) =
     (5 < length (inlineStyles doc) \<and> n = length (inlineStyles doc)) \<and>
   (numberToString n @ js '' inline scripts found (recommend using external JS files)''
      \<in> set (performanceChecks doc k)) =
     (5 < length (inlineScripts doc) \<and> n = length (inlineScripts doc)) \<and>
   (numberToString n @ js '' large images found (recommend optimizing)''
      \<in> set (performanceChecks doc k)) = (10 < k \<and> n = k) \<and>
   (numberToString n @ js '' iframes found (consider reducing for better performance)''
      \<in> set (performanceChecks doc k)) =
     (2 < length (iframes doc) \<and> n = length (iframes doc))"
  by (simp add: performanceChecks_def mem_push_if tail_rules head_rule numberToString_eq_iff)

section \<open>Claims about the checks\<close>

text \<open>
  Claim C5, amended.  Every issue string is in its issue list exactly when a fixed
  predicate holds of the parsed document and, for the external links, of the analysed
  URL.  The checks are separate \<^verbatim>\<open>if\<close>s, except in the two \<^verbatim>\<open>if / else if\<close> chains
  on the title and on the description: there the issue of a length check is appended
  only when the earlier checks of the chain did not trigger, so that a "too short"
  issue needs a value that is present and not empty.  A message with a count carries
  the count of its own check.
\<close>

theorem issue_predicates:
  "(js ''Missing title tag'' \<in> set (metaIssuesOf doc)) = (title doc = []) \<and>
   (js ''Title is too short (should be at least 30 characters)'' \<in> set (metaIssuesOf doc)) =
     (title doc \<noteq> [] \<and> length (title doc) < 30) \<and>
   (js ''Title is too long (should be less than 60 characters)'' \<in> set (metaIssuesOf doc)) =
     (60 < length (title doc)) \<and>
   (js ''Missing meta description'' \<in> set (metaIssuesOf doc)) = falsy (description doc) \<and>
   (js ''Meta description is too short (should be at least 120 characters)''
      \<in> set (metaIssuesOf doc)) =
     (\<not> falsy (description doc) \<and> length (or_empty (description doc)) < 120) \<and>
   (js ''Meta description is too long (should be less than 160 characters)''
      \<in> set (metaIssuesOf doc)) =
     (160 < length (or_empty (description doc))) \<and>
   (js ''Missing meta keywords'' \<in> set (metaIssuesOf doc)) = falsy (keywords_meta doc) \<and>
   (js ''Missing robots meta tag'' \<in> set (metaIssuesOf doc)) = falsy (robots doc) \<and>
   (js ''Missing canonical URL'' \<in> set (metaIssuesOf doc)) = falsy (canonical doc) \<and>
   (js ''Missing viewport meta tag'' \<in> set (metaIssuesOf doc)) = falsy (viewport doc) \<and>
   (js ''Missing charset meta tag'' \<in> set (metaIssuesOf doc)) = falsy (charset doc) \<and>
   (js ''Missing Open Graph tags'' \<in> set (metaIssuesOf doc)) = (length (ogTags doc) = 0) \<and>
   (js ''Missing Twitter Card tags'' \<in> set (metaIssuesOf doc)) =
     (length (twitterTags doc) = 0) \<and>
   (js ''Missing H1 heading'' \<in> set (contentIssuesOf url doc)) = (h1Count doc = 0) \<and>
   (js ''Multiple H1 headings detected (should have exactly one)''
      \<in> set (contentIssuesOf url doc)) = (1 < h1Count doc) \<and>
   (numberToString n @ js '' images missing alt text'' \<in> set (contentIssuesOf url doc)) =
     (0 < imagesWithoutAlt doc \<and> n = imagesWithoutAlt doc) \<and>
   (js ''No external links found (consider adding relevant outbound links)''
      \<in> set (contentIssuesOf url doc)) = (externalLinks url doc = 0) \<and>
   (js ''Content length is too short (should be at least 300 words)''
      \<in> set (contentIssuesOf url doc)) = (wordCount doc < 300) \<and>
   (js ''Too few paragraphs (should have at least 3 paragraphs)''
      \<in> set (contentIssuesOf url doc)) = (length (paragraphs doc) < 3) \<and>
   (js ''Too few headings (should use proper heading hierarchy)''
      \<in> set (contentIssuesOf url doc)) = (length (headings doc) < 2) \<and>
   (js ''No lists found (consider using bullet points or numbered lists)''
      \<in> set (contentIssuesOf url doc)) = (length (lists doc) = 0) \<and>
   (js ''No tables found (consider using tables for structured data)''
      \<in> set (contentIssuesOf url doc)) = (length (tables doc) = 0) \<and>
   (js ''High number of CSS files ('' @ numberToString n @ js '' found, recommend combining)''
      \<in> set (performanceIssuesOf doc)) =
     (5 < length (cssFiles doc) \<and> n = length (cssFiles doc)) \<and>
   (js ''High number of JavaScript files ('' @ numberToString n @
    js '' found, recommend combining)'' \<in> set (performanceIssuesOf doc)) =
     (10 < length (jsFiles doc) \<and> n = length (jsFiles doc)) \<and>
   (numberToString n @ js '' inline styles found (recommend using external CSS)''
      \<in> set (performanceIssuesOf doc)) =
     (5 < length (inlineStyles doc) \<and> n = length (inlineStyles doc)) \<and>
   (numberToString n @ js '' inline scripts found (recommend using external JS files)''
      \<in> set (performanceIssuesOf doc)) =
     (5 < length (inlineScripts doc) \<and> n = length (inlineScripts doc)) \<and>
   (numberToString n @ js '' large images found (recommend optimizing)''
      \<in> set (performanceIssuesOf doc)) =
     (10 < length (largeImages doc) \<and> n = length (largeImages doc)) \<and>
   (numberToString n @ js '' iframes found (consider reducing for better performance)''
      \<in> set (performanceIssuesOf doc)) =
     (2 < length (iframes doc) \<and> n = length (iframes doc))"
  unfolding contentIssuesOf_def performanceIssuesOf_def
  by (simp only: meta_predicates content_predicates performance_predicates simp_thms)

text \<open>
  Claim C5 as stated fails.  The threshold of the short-title check, a title of fewer
  than 30 characters, holds of the example document and of the titled one, yet the
  issue is appended for the titled document only: for the example document the
  missing-title check triggered before it in the chain.  And one document gives the
  external-links issue for one analysed URL and not for another.
\<close>

theorem checks_not_independent_counterexample:
  "length (title example_doc) < 30 \<and> length (title titled_doc) < 30 \<and>
   js ''Title is too short (should be at least 30 characters)''
     \<notin> set (metaIssuesOf example_doc) \<and>
   js ''Title is too short (should be at least 30 characters)''
     \<in> set (metaIssuesOf titled_doc) \<and>
   js ''Missing title tag'' \<in> set (metaIssuesOf example_doc) \<and>
   js ''No external links found (consider adding relevant outbound links)''
     \<in> set (contentIssuesOf (js ''http://example.org'') linked_doc) \<and>
   js ''No external links found (consider adding relevant outbound links)''
     \<notin> set (contentIssuesOf example_url linked_doc)"
  by code_simp

section \<open>Termination of the analysis\<close>

lemma filterFuel_eq:
  "filterFuel P xs fuel =
     (if length xs \<le> fuel then Some (filter P xs, fuel - length xs) else None)"
proof (induction xs arbitrary: fuel)
  case Nil
  then show ?case by simp
next
  case (Cons x xs)
  show ?case
  proof (cases fuel)
    case 0
    then show ?thesis by simp
  next
    case (Suc n)
    then show ?thesis by (simp add: Cons.IH)
  qed
qed

text \<open>
  Claim C8.  For every document the analysis phase terminates: every function of the
  analysis is total (recursion on the node lists and on strings), and the only loops of
  the program over node lists are the three \<^verbatim>\<open>.filter\<close> scans, two over the images and
  one over the links.  Run on fuel, one unit for each callback invocation, the analysis
  returns its result exactly when the fuel covers twice the number of images plus the
  number of links: the work is linear in the node lists.
\<close>

theorem analysis_terminates_with_linear_fuel:
  "analyzeDocumentFuel fuel url doc =
     (if 2 * length (images doc) + length (links doc) \<le> fuel
      then Some (analyzeDocument url doc) else None)"
  by (auto simp: analyzeDocumentFuel_def filterFuel_eq analyzeDocument_def
      contentIssuesOf_def performanceIssuesOf_def imagesWithoutAlt_def externalLinks_def
      largeImages_def)

end
